theory Spec2Isabelle
  imports Main
begin

section \<open>Characters and strings of the JavaScript source\<close>

text \<open>
  The address service is JavaScript. Its strings are modelled as HOL strings (lists of
  8-bit characters), which covers the ASCII inputs the parser is written for: the
  classes \<open>\d\<close>, \<open>\w\<close>, \<open>[A-Z]\<close> of the source's regular expressions
  are ASCII classes in JavaScript as well, and \<open>toLowerCase\<close>, \<open>toUpperCase\<close> and
  \<open>\s\<close> are modelled on their ASCII part. A JavaScript value that is \<open>null\<close>
  or \<open>undefined\<close> is \<open>None\<close>.
\<close>

definition isSpace :: "char \<Rightarrow> bool" where
  "isSpace c = (let n = (of_char c :: nat) in n = 32 \<or> (9 \<le> n \<and> n \<le> 13))"

definition isDigit :: "char \<Rightarrow> bool" where
  "isDigit c = (let n = (of_char c :: nat) in 48 \<le> n \<and> n \<le> 57)"

definition isUpper :: "char \<Rightarrow> bool" where
  "isUpper c = (let n = (of_char c :: nat) in 65 \<le> n \<and> n \<le> 90)"

definition isLower :: "char \<Rightarrow> bool" where
  "isLower c = (let n = (of_char c :: nat) in 97 \<le> n \<and> n \<le> 122)"

definition isAlpha :: "char \<Rightarrow> bool" where
  "isAlpha c = (isUpper c \<or> isLower c)"

text \<open>
  The ASCII characters, and the strings made of them. On these the classes and conversions
  of this section are those of JavaScript; outside them \<open>toUpperCase\<close> can change the
  length of a string (it turns the sharp s into \<open>SS\<close>) and \<open>\s\<close> has further
  members, so what depends on them is stated for ASCII strings.
\<close>

definition isAscii :: "char \<Rightarrow> bool" where
  "isAscii c = ((of_char c :: nat) < 128)"


text \<open>The class \<open>\w\<close>: letters, digits and the underscore.\<close>

definition isWord :: "char \<Rightarrow> bool" where
  "isWord c = (isAlpha c \<or> isDigit c \<or> c = CHR ''_'')"

definition lowerChar :: "char \<Rightarrow> char" where
  "lowerChar c = (if isUpper c then char_of (of_char c + (32::nat)) else c)"

definition upperChar :: "char \<Rightarrow> char" where
  "upperChar c = (if isLower c then char_of (of_char c - (32::nat)) else c)"

text \<open>
  The same classes and conversions on the bits of a character, as code equations: they
  make the evaluation of the parser on a concrete address fast.
\<close>

lemma isSpace_code [code]:
  "isSpace (Char b0 b1 b2 b3 b4 b5 b6 b7) =
     (if b5 then \<not> (b0 \<or> b1 \<or> b2 \<or> b3 \<or> b4 \<or> b6 \<or> b7)
      else b3 \<and> \<not> (b4 \<or> b6 \<or> b7) \<and> \<not> (b2 \<and> b1) \<and> (b2 \<or> b1 \<or> b0))"
  by (cases b0; cases b1; cases b2; cases b3; cases b4; cases b5; cases b6; cases b7;
      simp add: isSpace_def)

lemma isAscii_code [code]:
  "isAscii (Char b0 b1 b2 b3 b4 b5 b6 b7) = (\<not> b7)"
  by (cases b0; cases b1; cases b2; cases b3; cases b4; cases b5; cases b6; cases b7;
      simp add: isAscii_def)


lemma isUpper_code [code]:
  "isUpper (Char b0 b1 b2 b3 b4 b5 b6 b7) =
     (\<not> b7 \<and> b6 \<and> \<not> b5 \<and> (b0 \<or> b1 \<or> b2 \<or> b3 \<or> b4) \<and>
      \<not> (b4 \<and> b3 \<and> (b2 \<or> (b1 \<and> b0))))"
  by (cases b0; cases b1; cases b2; cases b3; cases b4; cases b5; cases b6; cases b7;
      simp add: isUpper_def)

lemma isLower_code [code]:
  "isLower (Char b0 b1 b2 b3 b4 b5 b6 b7) =
     (\<not> b7 \<and> b6 \<and> b5 \<and> (b0 \<or> b1 \<or> b2 \<or> b3 \<or> b4) \<and>
      \<not> (b4 \<and> b3 \<and> (b2 \<or> (b1 \<and> b0))))"
  by (cases b0; cases b1; cases b2; cases b3; cases b4; cases b5; cases b6; cases b7;
      simp add: isLower_def)

lemma lowerChar_code [code]:
  "lowerChar (Char b0 b1 b2 b3 b4 b5 b6 b7) =
     (if isUpper (Char b0 b1 b2 b3 b4 b5 b6 b7) then Char b0 b1 b2 b3 b4 True b6 b7
      else Char b0 b1 b2 b3 b4 b5 b6 b7)"
  by (cases b0; cases b1; cases b2; cases b3; cases b4; cases b5; cases b6; cases b7;
      simp add: lowerChar_def isUpper_def char_of_def bit_Suc_0_iff)

lemma upperChar_code [code]:
  "upperChar (Char b0 b1 b2 b3 b4 b5 b6 b7) =
     (if isLower (Char b0 b1 b2 b3 b4 b5 b6 b7) then Char b0 b1 b2 b3 b4 False b6 b7
      else Char b0 b1 b2 b3 b4 b5 b6 b7)"
  by (cases b0; cases b1; cases b2; cases b3; cases b4; cases b5; cases b6; cases b7;
      simp add: upperChar_def isLower_def char_of_def bit_Suc_0_iff)

definition toLowerCase :: "string \<Rightarrow> string" where
  "toLowerCase s = map lowerChar s"

definition toUpperCase :: "string \<Rightarrow> string" where
  "toUpperCase s = map upperChar s"

text \<open>\<open>String.prototype.trim\<close>: white space removed at both ends.\<close>

definition trim :: "string \<Rightarrow> string" where
  "trim s = rev (dropWhile isSpace (rev (dropWhile isSpace s)))"

text \<open>\<open>Array.prototype.join\<close> with a separator.\<close>

fun join :: "string \<Rightarrow> string list \<Rightarrow> string" where
  "join sep [] = []"
| "join sep [w] = w"
| "join sep (w # v # ws) = w @ sep @ join sep (v # ws)"

text \<open>\<open>String.prototype.split\<close> with a one-character separator string.\<close>

fun splitChar :: "char \<Rightarrow> string \<Rightarrow> string list" where
  "splitChar d [] = [[]]"
| "splitChar d (c # cs) =
     (if c = d then [] # splitChar d cs
      else (case splitChar d cs of [] \<Rightarrow> [[c]] | w # ws \<Rightarrow> (c # w) # ws))"

text \<open>\<open>String.prototype.includes\<close>: the argument occurs as a substring.\<close>

fun startsWith :: "string \<Rightarrow> string \<Rightarrow> bool" where
  "startsWith s [] = True"
| "startsWith [] (c # n) = False"
| "startsWith (d # s) (c # n) = (if d = c then startsWith s n else False)"

fun includesStr :: "string \<Rightarrow> string \<Rightarrow> bool" where
  "includesStr [] n = (n = [])"
| "includesStr (c # cs) n = (if startsWith (c # cs) n then True else includesStr cs n)"

text \<open>
  JavaScript's truthiness of a value that is a string, \<open>null\<close> or \<open>undefined\<close>:
  only a non-empty string is truthy. \<open>orNull\<close> is \<open>x || null\<close>.
\<close>

fun truthy :: "string option \<Rightarrow> bool" where
  "truthy None = False"
| "truthy (Some s) = (s \<noteq> [])"

definition orNull :: "string option \<Rightarrow> string option" where
  "orNull x = (if truthy x then x else None)"

section \<open>Regular expressions\<close>

text \<open>
  The parser is written with regular expressions. They are embedded with their syntax
  tree and a backtracking matcher that returns every way to match at the current
  position, in the order in which JavaScript's matcher tries them: the first element is
  the match JavaScript reports. A matcher state is the character before the position
  (for \<open>\b\<close> and \<open>^\<close>), the rest of the input and the captures so far.
\<close>

datatype rx =
    Cls "char \<Rightarrow> bool"
  | Seq rx rx
  | Alt rx rx
  | Star rx
  | Opt rx
  | Grp nat rx
  | WordB
  | Bol
  | Eol
  | Eps

type_synonym caps = "(nat \<times> string) list"
type_synonym mstate = "char option \<times> string \<times> caps"

definition rest :: "mstate \<Rightarrow> string" where
  "rest s = fst (snd s)"

text \<open>
  A greedy \<open>*\<close>: one more iteration first, then none; an iteration that consumes
  nothing is rejected, as in ECMAScript's RepeatMatcher (and so it is for \<open>?\<close>).
\<close>

function star_loop :: "(mstate \<Rightarrow> mstate list) \<Rightarrow> mstate \<Rightarrow> mstate list" where
  "star_loop f s =
     concat (map (\<lambda>s'. if length (rest s') < length (rest s) then star_loop f s' else [])
                 (f s)) @ [s]"
  by pat_completeness auto
termination
  by (relation "measure (\<lambda>(f, s). length (rest s))") auto

declare star_loop.simps [simp del]

definition wordBefore :: "char option \<Rightarrow> bool" where
  "wordBefore p = (case p of None \<Rightarrow> False | Some c \<Rightarrow> isWord c)"

definition wordAfter :: "string \<Rightarrow> bool" where
  "wordAfter cs = (case cs of [] \<Rightarrow> False | c # _ \<Rightarrow> isWord c)"

primrec rmatch :: "rx \<Rightarrow> mstate \<Rightarrow> mstate list" where
  "rmatch (Cls P) = (\<lambda>(p, cs, g).
     (case cs of [] \<Rightarrow> [] | c # cs' \<Rightarrow> if P c then [(Some c, cs', g)] else []))"
| "rmatch (Seq a b) = (\<lambda>s. concat (map (rmatch b) (rmatch a s)))"
| "rmatch (Alt a b) = (\<lambda>s. rmatch a s @ rmatch b s)"
| "rmatch (Star a) = star_loop (rmatch a)"
| "rmatch (Opt a) = (\<lambda>s.
     filter (\<lambda>s'. length (rest s') < length (rest s)) (rmatch a s) @ [s])"
| "rmatch (Grp n a) = (\<lambda>(p, cs, g).
     map (\<lambda>(p', cs', g'). (p', cs', (n, take (length cs - length cs') cs) # g'))
         (rmatch a (p, cs, g)))"
| "rmatch WordB = (\<lambda>(p, cs, g). if wordBefore p \<noteq> wordAfter cs then [(p, cs, g)] else [])"
| "rmatch Bol = (\<lambda>(p, cs, g). if p = None then [(p, cs, g)] else [])"
| "rmatch Eol = (\<lambda>(p, cs, g). if cs = [] then [(p, cs, g)] else [])"
| "rmatch Eps = (\<lambda>s. [s])"

text \<open>Literal characters and strings, \<open>a+\<close> and \<open>a{n}\<close>.\<close>

definition Chr :: "char \<Rightarrow> rx" where
  "Chr c = Cls (\<lambda>d. d = c)"

text \<open>A literal character under the flag \<open>i\<close>.\<close>

definition ChrI :: "char \<Rightarrow> rx" where
  "ChrI c = Cls (\<lambda>d. upperChar d = upperChar c)"

definition litI :: "string \<Rightarrow> rx" where
  "litI s = foldr (\<lambda>c r. Seq (ChrI c) r) s Eps"

definition Plus :: "rx \<Rightarrow> rx" where
  "Plus a = Seq a (Star a)"

primrec rep :: "nat \<Rightarrow> rx \<Rightarrow> rx" where
  "rep 0 a = Eps"
| "rep (Suc n) a = Seq a (rep n a)"

text \<open>
  \<open>String.prototype.match\<close> with a regular expression that has no flag \<open>g\<close>:
  the leftmost position with a match, and there the first match. The result keeps the
  text before, the matched text, the text after and the captures.
\<close>

record rmatched =
  before :: string
  matched :: string
  after :: string
  groups :: caps

definition lastChar :: "string \<Rightarrow> char option" where
  "lastChar pre = (case pre of [] \<Rightarrow> None | c # _ \<Rightarrow> Some c)"

fun rsearch_from :: "rx \<Rightarrow> string \<Rightarrow> string \<Rightarrow> rmatched option" where
  "rsearch_from r pre cs =
     (case rmatch r (lastChar pre, cs, []) of
        (p', cs', g) # _ \<Rightarrow>
          Some \<lparr>before = rev pre, matched = take (length cs - length cs') cs,
                after = cs', groups = g\<rparr>
      | [] \<Rightarrow> (case cs of [] \<Rightarrow> None | c # cs'' \<Rightarrow> rsearch_from r (c # pre) cs''))"

declare rsearch_from.simps [simp del]

definition rsearch :: "rx \<Rightarrow> string \<Rightarrow> rmatched option" where
  "rsearch r s = rsearch_from r [] s"

text \<open>A capture group of a match: \<open>None\<close> is \<open>undefined\<close>.\<close>

definition grp :: "rmatched \<Rightarrow> nat \<Rightarrow> string option" where
  "grp m n = map_of (groups m) n"

text \<open>\<open>String.prototype.replace\<close> with a regular expression without the flag \<open>g\<close>.\<close>

definition rreplace :: "rx \<Rightarrow> string \<Rightarrow> string \<Rightarrow> string" where
  "rreplace r new s =
     (case rsearch r s of None \<Rightarrow> s | Some m \<Rightarrow> before m @ new @ after m)"

text \<open>
  \<open>String.prototype.replace\<close> with the flag \<open>g\<close>: every match from left to right,
  the search going on after each match; after an empty match one character is copied.
\<close>

function rreplace_all_from :: "rx \<Rightarrow> string \<Rightarrow> char option \<Rightarrow> string \<Rightarrow> string" where
  "rreplace_all_from r new p cs =
     (case rmatch r (p, cs, []) of
        [] \<Rightarrow> (case cs of [] \<Rightarrow> [] | c # t \<Rightarrow> c # rreplace_all_from r new (Some c) t)
      | m # _ \<Rightarrow>
          if length (rest m) < length cs then new @ rreplace_all_from r new (fst m) (rest m)
          else new @ (case cs of [] \<Rightarrow> [] | c # t \<Rightarrow> c # rreplace_all_from r new (Some c) t))"
  by pat_completeness auto
termination
  by (relation "measure (\<lambda>(r, new, p, cs). length cs)") auto

declare rreplace_all_from.simps [simp del]

definition rreplace_all :: "rx \<Rightarrow> string \<Rightarrow> string \<Rightarrow> string" where
  "rreplace_all r new s = rreplace_all_from r new None s"

text \<open>
  \<open>String.prototype.split\<close> with a regular expression that has no capture group: the
  pieces between the matches; a match that is empty at the start of a piece is skipped.
\<close>

function rsplit_from :: "rx \<Rightarrow> string \<Rightarrow> char option \<Rightarrow> string \<Rightarrow> string list" where
  "rsplit_from r acc p cs =
     (case cs of
        [] \<Rightarrow> [rev acc]
      | c # t \<Rightarrow>
          (case rmatch r (p, cs, []) of
             [] \<Rightarrow> rsplit_from r (c # acc) (Some c) t
           | m # _ \<Rightarrow>
               if length (rest m) < length cs then rev acc # rsplit_from r [] (fst m) (rest m)
               else if acc = [] then rsplit_from r [c] (Some c) t
               else rev acc # rsplit_from r [c] (Some c) t))"
  by pat_completeness auto
termination
  by (relation "measure (\<lambda>(r, acc, p, cs). length cs)") auto

declare rsplit_from.simps [simp del]

definition rsplit :: "rx \<Rightarrow> string \<Rightarrow> string list" where
  "rsplit r s =
     (if s = [] then (if rmatch r (None, [], []) = [] then [[]] else [])
      else rsplit_from r [] None s)"

section \<open>Reference tables\<close>

text \<open>
  \<open>utils/constants.js\<close> exports the tables \<open>US_STATES\<close> (state code to state
  name), \<open>STREET_TYPES\<close>, \<open>DIRECTIONS\<close> and \<open>UNIT_TYPES\<close> (lower-case
  abbreviation to canonical form). The parser takes them as a parameter. A table is an
  association list: the entries of the object in the order of \<open>Object.entries\<close>.
\<close>

type_synonym table = "(string \<times> string) list"

record constants =
  US_STATES :: table
  STREET_TYPES :: table
  DIRECTIONS :: table
  UNIT_TYPES :: table

text \<open>
  The tables are ordinary objects (\<open>isValidState\<close> calls
  \<open>US_STATES.hasOwnProperty\<close>). The property access \<open>t[k]\<close>, here
  \<open>lookup t k\<close>, therefore finds the entry of the table or else a property that every
  object inherits from \<open>Object.prototype\<close>. An inherited value is a function or an
  object; the parser only tests it for truthiness and turns it into a string (in
  \<open>join\<close> or in a template literal), so it is given here as that string, the one
  Node.js prints.
\<close>

definition prototypeMethods :: "string list" where
  "prototypeMethods =
     [''__defineGetter__'', ''__defineSetter__'', ''hasOwnProperty'', ''__lookupGetter__'',
      ''__lookupSetter__'', ''isPrototypeOf'', ''propertyIsEnumerable'', ''toString'',
      ''valueOf'', ''toLocaleString'']"

definition inherited :: "string \<Rightarrow> string option" where
  "inherited k =
     (if k = ''__proto__'' then Some ''[object Object]''
      else if k = ''constructor'' then Some ''function Object() { [native code] }''
      else if k \<in> set prototypeMethods
        then Some (''function '' @ k @ ''() { [native code] }'')
      else None)"

definition lookup :: "table \<Rightarrow> string \<Rightarrow> string option" where
  "lookup t k = (case map_of t k of Some v \<Rightarrow> Some v | None \<Rightarrow> inherited k)"

definition hasOwnProperty :: "table \<Rightarrow> string \<Rightarrow> bool" where
  "hasOwnProperty t k = (map_of t k \<noteq> None)"

section \<open>The address parser (utils/addressParser.js)\<close>

record Components =
  streetNumber :: "string option"
  street :: "string option"
  city :: "string option"
  state :: "string option"
  zipCode :: "string option"

record UnitComponents = Components +
  unit :: "string option"

record ParsedAddress = UnitComponents +
  raw :: string

text \<open>
  The value passed to \<open>parseAddress\<close>: any JavaScript value. The parser only tells a
  string from the rest, so a number is given as an integer and \<open>JObject\<close> stands for
  every object, array or function.
\<close>

datatype jsval = JUndefined | JNull | JBool bool | JNumber int | JString string | JObject

definition seqs :: "rx list \<Rightarrow> rx" where
  "seqs rs = foldr Seq rs Eps"

definition alts :: "rx list \<Rightarrow> rx" where
  "alts rs = (case rs of [] \<Rightarrow> Eps | _ \<Rightarrow> foldr Alt (butlast rs) (last rs))"

abbreviation space :: rx where
  "space \<equiv> Cls isSpace"

abbreviation digit :: rx where
  "digit \<equiv> Cls isDigit"

text \<open>\<open>/\b(\d{5})(?:-(\d{4}))?\b/\<close>\<close>

definition zipPattern :: rx where
  "zipPattern =
     seqs [WordB, Grp 1 (rep 5 digit), Opt (Seq (Chr CHR ''-'') (Grp 2 (rep 4 digit))), WordB]"

text \<open>\<open>/\b([A-Z]{2})\b(?:\s+\d{5})?/i\<close>\<close>

definition abbrevPattern :: rx where
  "abbrevPattern =
     seqs [WordB, Grp 1 (rep 2 (Cls isAlpha)), WordB, Opt (Seq (Plus space) (rep 5 digit))]"

text \<open>
  \<open>/\b(apt|apartment|suite|ste|unit|#|floor|fl|room|rm)\.?\s*#?\s*(\w+)\s*$/i\<close> and
  \<open>/\s+#(\w+)\s*$/i\<close>
\<close>

definition unitPatterns :: "rx list" where
  "unitPatterns =
     [seqs [WordB,
            Grp 1 (alts [litI ''apt'', litI ''apartment'', litI ''suite'', litI ''ste'',
                         litI ''unit'', litI ''#'', litI ''floor'', litI ''fl'',
                         litI ''room'', litI ''rm'']),
            Opt (Chr CHR ''.''), Star space, Opt (Chr CHR ''#''), Star space,
            Grp 2 (Plus (Cls isWord)), Star space, Eol],
      seqs [Plus space, Chr CHR ''#'', Grp 1 (Plus (Cls isWord)), Star space, Eol]]"

text \<open>\<open>/^(\d+[-\d]*[a-zA-Z]?)\s+/\<close>\<close>

definition numberPattern :: rx where
  "numberPattern =
     seqs [Bol,
           Grp 1 (seqs [Plus digit, Star (Cls (\<lambda>c. c = CHR ''-'' \<or> isDigit c)),
                        Opt (Cls isAlpha)]),
           Plus space]"

text \<open>\<open>/\.$/\<close>\<close>

definition trailingDot :: rx where
  "trailingDot = Seq (Chr CHR ''.'') Eol"

text \<open>\<open>/\b\d{5}(-\d{4})?\b/\<close>, as \<open>extractCity\<close> writes it.\<close>

definition cityZipPattern :: rx where
  "cityZipPattern =
     seqs [WordB, rep 5 digit, Opt (Grp 1 (Seq (Chr CHR ''-'') (rep 4 digit))), WordB]"

text \<open>
  \<open>new RegExp(`\\b${w}\\b`, 'i')\<close> for a word \<open>w\<close> of letters, digits and spaces
  (a state code or a state name), which stands for itself in a pattern.
\<close>

definition wordPattern :: "string \<Rightarrow> rx" where
  "wordPattern w = seqs [WordB, litI w, WordB]"

text \<open>\<open>/[,\s]+$/\<close> and \<open>/^[,\s]+/\<close>\<close>

definition commaSpace :: rx where
  "commaSpace = Cls (\<lambda>c. c = CHR '','' \<or> isSpace c)"

definition trailingCommas :: rx where
  "trailingCommas = Seq (Plus commaSpace) Eol"

definition leadingCommas :: rx where
  "leadingCommas = Seq Bol (Plus commaSpace)"

text \<open>\<open>word.charAt(0).toUpperCase() + word.slice(1).toLowerCase()\<close>\<close>

definition capitalize :: "string \<Rightarrow> string" where
  "capitalize word = (case word of [] \<Rightarrow> [] | c # cs \<Rightarrow> upperChar c # toLowerCase cs)"

definition normalizeUnitType :: "constants \<Rightarrow> string \<Rightarrow> string" where
  "normalizeUnitType K type =
     (let lower = rreplace trailingDot [] (toLowerCase type)
      in case orNull (lookup (UNIT_TYPES K) lower) of Some t \<Rightarrow> t | None \<Rightarrow> ''Unit'')"

text \<open>The callback of \<open>words.map\<close> in \<open>normalizeStreetName\<close>; \<open>n\<close> is \<open>words.length\<close>.\<close>

definition normalizeWord :: "constants \<Rightarrow> nat \<Rightarrow> nat \<Rightarrow> string \<Rightarrow> string" where
  "normalizeWord K n index word =
     (let lower = rreplace trailingDot [] (toLowerCase word);
          direction = (if index = 0 \<or> index + 1 = n
                       then orNull (lookup (DIRECTIONS K) lower) else None);
          streetType = (if index + 1 = n \<or> index + 2 = n
                        then orNull (lookup (STREET_TYPES K) lower) else None)
      in case direction of
           Some d \<Rightarrow> d
         | None \<Rightarrow> (case streetType of Some t \<Rightarrow> t | None \<Rightarrow> capitalize word))"

definition normalizeStreetName :: "constants \<Rightarrow> string option \<Rightarrow> string option" where
  "normalizeStreetName K street' =
     (case orNull street' of
        None \<Rightarrow> None
      | Some s \<Rightarrow>
          (let normalized = trim s;
               words = rsplit (Plus space) normalized;
               normalizedWords =
                 map (\<lambda>(index, word). normalizeWord K (length words) index word)
                     (enumerate 0 words)
           in Some (join '' '' normalizedWords)))"

text \<open>
  The loop over \<open>unitPatterns\<close> in \<open>parseStreetAddress\<close>: the first pattern that
  matches gives the unit and the working string without the match.
\<close>

fun extractUnit :: "constants \<Rightarrow> rx list \<Rightarrow> string \<Rightarrow> string option \<times> string" where
  "extractUnit K [] working = (None, working)"
| "extractUnit K (pattern # patterns) working =
     (case rsearch pattern working of
        None \<Rightarrow> extractUnit K patterns working
      | Some unitMatch \<Rightarrow>
          (let unitType = (case orNull (grp unitMatch 1) of
                             Some t \<Rightarrow> normalizeUnitType K t | None \<Rightarrow> ''Unit'');
               unitNumber = (case orNull (grp unitMatch 2) of
                               Some u \<Rightarrow> Some u | None \<Rightarrow> grp unitMatch 1)
           in (Some (trim (unitType @ '' '' @
                             (case unitNumber of Some u \<Rightarrow> u | None \<Rightarrow> ''undefined''))),
               trim (rreplace pattern [] working))))"

text \<open>\<open>parseStreetAddress\<close> returns \<open>{ number, street, unit }\<close>, here a triple.\<close>

definition parseStreetAddress ::
  "constants \<Rightarrow> string \<Rightarrow> string option \<times> string option \<times> string option" where
  "parseStreetAddress K streetPart =
     (if streetPart = [] then (None, None, None)
      else
        let (unit', working) = extractUnit K unitPatterns streetPart;
            numberMatch = rsearch numberPattern working;
            number = (case numberMatch of None \<Rightarrow> None | Some m \<Rightarrow> grp m 1);
            working' = (case numberMatch of
                          None \<Rightarrow> working
                        | Some m \<Rightarrow> drop (length (matched m)) working)
        in (number, normalizeStreetName K (Some working'), unit'))"

text \<open>The result \<open>{ abbreviation, name }\<close> of \<open>extractState\<close>.\<close>

record StateResult =
  stateAbbreviation :: string
  stateName :: string

text \<open>The loop of \<open>extractState\<close> over \<open>Object.entries(US_STATES)\<close>.\<close>

fun findStateName :: "table \<Rightarrow> string \<Rightarrow> StateResult option" where
  "findStateName [] addressLower = None"
| "findStateName ((abbrev, name') # entries) addressLower =
     (if includesStr addressLower (toLowerCase name')
      then Some \<lparr>stateAbbreviation = abbrev, stateName = name'\<rparr>
      else findStateName entries addressLower)"

text \<open>
  The first half of \<open>extractState\<close>: the first two-letter token, in upper case, when
  it is a key of \<open>US_STATES\<close>.
\<close>

definition abbrevMatch :: "string \<Rightarrow> rmatched option" where
  "abbrevMatch address = rsearch abbrevPattern address"

definition matchAbbreviation :: "constants \<Rightarrow> string \<Rightarrow> StateResult option" where
  "matchAbbreviation K address =
     (case abbrevMatch address of
        None \<Rightarrow> None
      | Some m \<Rightarrow>
          (case grp m 1 of
             None \<Rightarrow> None
           | Some g \<Rightarrow>
               (let abbrev = toUpperCase g
                in case orNull (lookup (US_STATES K) abbrev) of
                     None \<Rightarrow> None
                   | Some n \<Rightarrow> Some \<lparr>stateAbbreviation = abbrev, stateName = n\<rparr>)))"

definition extractState :: "constants \<Rightarrow> string \<Rightarrow> StateResult option" where
  "extractState K address =
     (case matchAbbreviation K address of
        Some r \<Rightarrow> Some r
      | None \<Rightarrow> findStateName (US_STATES K) (toLowerCase address))"

text \<open>
  Three notions to speak about \<open>extractState\<close>: the first standalone two-letter token
  of the address (\<open>abbrevMatch[1]\<close>), a token that is a recognised state code (its upper
  case has a truthy entry in \<open>US_STATES\<close>), and an address in which the full name of
  a state of the table occurs, case-insensitively.
\<close>

definition firstToken :: "string \<Rightarrow> string option" where
  "firstToken address = (case abbrevMatch address of None \<Rightarrow> None | Some m \<Rightarrow> grp m 1)"

definition recognised :: "constants \<Rightarrow> string \<Rightarrow> bool" where
  "recognised K g = truthy (lookup (US_STATES K) (toUpperCase g))"

definition nameOccurs :: "constants \<Rightarrow> string \<Rightarrow> bool" where
  "nameOccurs K address =
     list_ex (\<lambda>(a, n). includesStr (toLowerCase address) (toLowerCase n)) (US_STATES K)"

definition cleanCityName :: "string option \<Rightarrow> string option" where
  "cleanCityName city' =
     (case orNull city' of
        None \<Rightarrow> None
      | Some c \<Rightarrow>
          (let cleaned = rreplace leadingCommas [] (rreplace trailingCommas [] (trim c))
           in if cleaned = [] then None
              else Some (join '' '' (map capitalize (rsplit (Plus space) cleaned)))))"

definition extractCity :: "constants \<Rightarrow> string \<Rightarrow> string option \<Rightarrow> string option" where
  "extractCity K part knownState =
     (if part = [] then None
      else
        let city1 = (case orNull knownState of
                       Some s \<Rightarrow> rreplace (wordPattern s) [] part
                     | None \<Rightarrow> part);
            city2 = rreplace cityZipPattern [] city1;
            city3 = fold (\<lambda>(abbrev, name') c.
                            rreplace (wordPattern name') [] (rreplace (wordPattern abbrev) [] c))
                         (US_STATES K) city2
        in cleanCityName (Some city3))"

text \<open>
  The first statement of \<open>parseAddress\<close>:
  \<open>addressString.trim().replace(/\s+/g, ' ').replace(/,\s*/g, ', ')\<close>.
\<close>

definition normalizeInput :: "string \<Rightarrow> string" where
  "normalizeInput addressString =
     rreplace_all (Seq (Chr CHR '','') (Star space)) '', ''
       (rreplace_all (Plus space) '' '' (trim addressString))"

definition extractZip :: "string \<Rightarrow> string option" where
  "extractZip normalized =
     (case rsearch zipPattern normalized of
        None \<Rightarrow> None
      | Some zipMatch \<Rightarrow>
          (case orNull (grp zipMatch 2) of
             Some ext \<Rightarrow> Some ((case grp zipMatch 1 of Some z \<Rightarrow> z | None \<Rightarrow> ''undefined'')
                                  @ ''-'' @ ext)
           | None \<Rightarrow> grp zipMatch 1))"

definition parseAddress :: "constants \<Rightarrow> jsval \<Rightarrow> ParsedAddress option" where
  "parseAddress K addressString =
     (case addressString of
        JString s \<Rightarrow>
          if s = [] then None
          else
            let normalized = normalizeInput s;
                zip = extractZip normalized;
                st = (case extractState K normalized of
                        None \<Rightarrow> None | Some r \<Rightarrow> Some (stateAbbreviation r));
                parts = map trim (splitChar CHR '','' normalized);
                (number, str, un) =
                  (case parts of [] \<Rightarrow> (None, None, None)
                   | streetPart # _ \<Rightarrow> parseStreetAddress K streetPart);
                city1 = (case parts of
                           _ # cityStatePart # _ \<Rightarrow> orNull (extractCity K cityStatePart st)
                         | _ \<Rightarrow> None);
                city2 = (if 3 \<le> length parts \<and> \<not> truthy city1
                         then cleanCityName (Some (parts ! 1)) else city1)
            in Some \<lparr>streetNumber = number, street = str, city = city2, state = st,
                     zipCode = zip, unit = un, raw = s\<rparr>
      | _ \<Rightarrow> None)"

text \<open>\<open>isValidZipCode\<close>: \<open>/^\d{5}(-\d{4})?$/\<close>\<close>

definition isValidZipCode :: "string option \<Rightarrow> bool" where
  "isValidZipCode zip' =
     (case orNull zip' of
        None \<Rightarrow> False
      | Some z \<Rightarrow>
          rsearch (seqs [Bol, rep 5 digit, Opt (Grp 1 (Seq (Chr CHR ''-'') (rep 4 digit))), Eol]) z
          \<noteq> None)"

definition isValidState :: "constants \<Rightarrow> string option \<Rightarrow> bool" where
  "isValidState K st =
     (case orNull st of
        None \<Rightarrow> False
      | Some s \<Rightarrow> hasOwnProperty (US_STATES K) (toUpperCase s))"

section \<open>The validation service (services/addressValidationService.js)\<close>

text \<open>
  The result of the geocoding service (\<open>normalizeNominatimResult\<close>). Latitude and
  longitude are floating-point numbers that the service only copies: their type is a
  parameter. \<open>displayName\<close>, \<open>placeType\<close> and \<open>importance\<close> are never read by
  the validation service and are left out.
\<close>

record 'n VerifiedAddress = Components +
  country :: string
  latitude :: 'n
  longitude :: 'n
  confidence :: int

text \<open>
  \<open>VALIDATION_STATUS\<close> of \<open>utils/constants.js\<close>: the four members the service
  uses, whose values are the strings \<open>valid\<close>, \<open>corrected\<close>, \<open>unverifiable\<close>
  and \<open>invalid\<close> of the API.
\<close>

datatype Status = VALID | CORRECTED | UNVERIFIABLE | INVALID

record Correction =
  field :: string
  original :: "string option"
  corrected :: "string option"

record Address = UnitComponents +
  formatted :: "string option"

record 'n Coordinates =
  latitude :: 'n
  longitude :: 'n

text \<open>
  The response object. \<open>input\<close> and \<open>address\<close> always have a value, which may be
  \<open>null\<close> (\<open>None\<close>). \<open>coordinates\<close> and \<open>confidence\<close> are assigned only
  where there is a verified address: for them \<open>None\<close> is a key that was never assigned.
  \<open>issues\<close> and \<open>corrections\<close> are keys of the object literal of
  \<open>createResponse\<close>, whose value there is a list or \<open>undefined\<close>: a
  \<open>property\<close> tells a key that was never assigned (\<open>Missing\<close>) from a key whose
  value is \<open>undefined\<close> and from a key with a value.
\<close>

datatype 'a property = Missing | Undefined | Defined 'a

record 'n Response =
  status :: Status
  input :: "string option"
  address :: "Address option"
  issues :: "string list property"
  corrections :: "Correction list property"
  coordinates :: "'n Coordinates option"
  confidence :: "int option"

definition hasMinimumComponents :: "ParsedAddress \<Rightarrow> bool" where
  "hasMinimumComponents parsed = (truthy (street parsed) \<or> truthy (city parsed))"

text \<open>\<open>str.toLowerCase().replace(/[^a-z0-9]/g, '')\<close>, and \<open>''\<close> for a falsy argument.\<close>

definition normalizeForComparison :: "string option \<Rightarrow> string" where
  "normalizeForComparison str =
     (case orNull str of
        None \<Rightarrow> []
      | Some s \<Rightarrow> rreplace_all (Cls (\<lambda>c. \<not> (isLower c \<or> isDigit c))) [] (toLowerCase s))"

text \<open>\<open>/-\d{4}$/\<close>\<close>

definition plus4Pattern :: rx where
  "plus4Pattern = seqs [Chr CHR ''-'', rep 4 digit, Eol]"

text \<open>\<open>zip.replace(/-\d{4}$/, '')\<close>, and \<open>''\<close> for a falsy argument.\<close>

definition normalizeZip :: "string option \<Rightarrow> string" where
  "normalizeZip zip' =
     (case orNull zip' of None \<Rightarrow> [] | Some z \<Rightarrow> rreplace plus4Pattern [] z)"

text \<open>\<open>if (b) xs.push(x)\<close>, and \<open>if (x) xs.push(x)\<close> for a string or \<open>null\<close>.\<close>

definition pushIf :: "bool \<Rightarrow> 'a \<Rightarrow> 'a list \<Rightarrow> 'a list" where
  "pushIf b x xs = (if b then xs @ [x] else xs)"

definition pushTruthy :: "string option \<Rightarrow> string list \<Rightarrow> string list" where
  "pushTruthy x xs = (case orNull x of None \<Rightarrow> xs | Some s \<Rightarrow> xs @ [s])"

definition determineStatus ::
  "ParsedAddress \<Rightarrow> 'n VerifiedAddress \<Rightarrow> Status \<times> Correction list" where
  "determineStatus parsed geocoded =
     (let c0 = [];
          c1 = pushIf (truthy (streetNumber geocoded) \<and>
                       streetNumber parsed \<noteq> streetNumber geocoded)
                 \<lparr>field = ''streetNumber'', original = streetNumber parsed,
                    corrected = streetNumber geocoded\<rparr> c0;
          c2 = pushIf (truthy (street geocoded) \<and>
                       normalizeForComparison (street parsed) \<noteq>
                       normalizeForComparison (street geocoded))
                 \<lparr>field = ''street'', original = street parsed,
                    corrected = street geocoded\<rparr> c1;
          c3 = pushIf (truthy (city geocoded) \<and>
                       normalizeForComparison (city parsed) \<noteq>
                       normalizeForComparison (city geocoded))
                 \<lparr>field = ''city'', original = city parsed,
                    corrected = city geocoded\<rparr> c2;
          c4 = pushIf (truthy (state geocoded) \<and>
                       map_option toUpperCase (state parsed) \<noteq>
                       map_option toUpperCase (state geocoded))
                 \<lparr>field = ''state'', original = state parsed,
                    corrected = state geocoded\<rparr> c3;
          c5 = pushIf (truthy (zipCode geocoded) \<and>
                       normalizeZip (zipCode parsed) \<noteq> normalizeZip (zipCode geocoded))
                 \<lparr>field = ''zipCode'', original = zipCode parsed,
                    corrected = zipCode geocoded\<rparr> c4
      in (if length c5 = 0 then VALID
          else if 70 \<le> VerifiedAddress.confidence geocoded then CORRECTED
          else UNVERIFIABLE,
          c5))"

definition formatAddress :: "'a Components_scheme \<Rightarrow> string option \<Rightarrow> string option" where
  "formatAddress components unit' =
     (let streetParts =
            pushTruthy unit'
              (pushTruthy (street components) (pushTruthy (streetNumber components) []));
          parts1 = pushIf (0 < length streetParts) (join '' '' streetParts) [];
          csz1 = pushTruthy (city components) [];
          csz2 = (case orNull (state components) of
                    None \<Rightarrow> csz1
                  | Some s \<Rightarrow>
                      (if 0 < length csz1 then butlast csz1 @ [last csz1 @ '',''] else csz1)
                      @ [s]);
          csz3 = pushTruthy (zipCode components) csz2;
          parts2 = pushIf (0 < length csz3) (join '' '' csz3) parts1
      in orNull (Some (join '', '' parts2)))"

definition createResponse ::
  "Status \<Rightarrow> ParsedAddress option \<Rightarrow> 'n VerifiedAddress option \<Rightarrow> string list \<Rightarrow>
   Correction list \<Rightarrow> 'n Response" where
  "createResponse st parsed geocoded iss corr =
     (let response =
            \<lparr>status = st,
             input = (case parsed of None \<Rightarrow> None | Some p \<Rightarrow> orNull (Some (raw p))),
             address = None,
             issues = (if 0 < length iss then Defined iss else Undefined),
             corrections = (if 0 < length corr then Defined corr else Undefined),
             coordinates = None,
             confidence = None\<rparr>;
          parsedUnit = (case parsed of None \<Rightarrow> None | Some p \<Rightarrow> unit p)
      in case geocoded of
           Some g \<Rightarrow>
             response
               \<lparr>address := Some
                  \<lparr>streetNumber = streetNumber g, street = street g, city = city g,
                   state = state g, zipCode = zipCode g, unit = orNull parsedUnit,
                   formatted = formatAddress g parsedUnit\<rparr>,
                coordinates := Some
                  \<lparr>latitude = VerifiedAddress.latitude g,
                   longitude = VerifiedAddress.longitude g\<rparr>,
                confidence := Some (VerifiedAddress.confidence g)\<rparr>
         | None \<Rightarrow>
             (case parsed of
                Some p \<Rightarrow>
                  if st = UNVERIFIABLE
                  then response
                         \<lparr>address := Some
                            \<lparr>streetNumber = streetNumber p, street = street p, city = city p,
                             state = state p, zipCode = zipCode p, unit = unit p,
                             formatted = None\<rparr>\<rparr>
                  else response
              | None \<Rightarrow> response))"

definition handleUnverifiableAddress :: "constants \<Rightarrow> ParsedAddress \<Rightarrow> 'n Response" where
  "handleUnverifiableAddress K parsed =
     (let i1 = pushIf (\<not> truthy (streetNumber parsed))
                 ''Street number could not be determined'' [];
          i2 = pushIf (\<not> truthy (street parsed)) ''Street name could not be determined'' i1;
          i3 = pushIf (\<not> truthy (city parsed)) ''City could not be determined'' i2;
          i4 = (case orNull (state parsed) of
                  None \<Rightarrow> i3 @ [''State could not be determined'']
                | Some s \<Rightarrow>
                    pushIf (\<not> isValidState K (Some s)) (''Invalid state: '' @ s) i3);
          i5 = (case orNull (zipCode parsed) of
                  None \<Rightarrow> i4 @ [''ZIP code could not be determined'']
                | Some z \<Rightarrow>
                    pushIf (\<not> isValidZipCode (Some z)) (''Invalid ZIP code format: '' @ z) i4);
          hasBasicComponents = (truthy (street parsed) \<or> truthy (city parsed));
          st = (if hasBasicComponents then UNVERIFIABLE else INVALID)
      in createResponse st (Some parsed) None i5 [])"

text \<open>
  \<open>validateAddress\<close>. The two calls of the geocoding service, \<open>geocodeAddress\<close> and
  \<open>structuredSearch\<close>, are parameters: each returns a verified address or \<open>null\<close>
  and never throws. \<open>finalResult\<close> is steps 2 and 3: the structured search is tried
  when the free-text lookup found nothing and the parse has a street or a city.
\<close>

definition finalResult ::
  "(jsval \<Rightarrow> 'n VerifiedAddress option) \<Rightarrow> (ParsedAddress \<Rightarrow> 'n VerifiedAddress option) \<Rightarrow>
   ParsedAddress \<Rightarrow> jsval \<Rightarrow> 'n VerifiedAddress option" where
  "finalResult geocodeAddress structuredSearch parsed addressInput =
     (let geocoded = geocodeAddress addressInput
      in if geocoded = None \<and> hasMinimumComponents parsed
         then structuredSearch parsed else geocoded)"

definition validateAddress ::
  "constants \<Rightarrow> (jsval \<Rightarrow> 'n VerifiedAddress option) \<Rightarrow>
   (ParsedAddress \<Rightarrow> 'n VerifiedAddress option) \<Rightarrow> jsval \<Rightarrow> 'n Response" where
  "validateAddress K geocodeAddress structuredSearch addressInput =
     (case parseAddress K addressInput of
        None \<Rightarrow> createResponse INVALID None None [''Could not parse address input''] []
      | Some parsed \<Rightarrow>
          (case finalResult geocodeAddress structuredSearch parsed addressInput of
             None \<Rightarrow> handleUnverifiableAddress K parsed
           | Some final \<Rightarrow>
               if truthy (Some (country final)) \<and> country final \<noteq> ''US''
               then createResponse INVALID (Some parsed) (Some final)
                      [''Address is not in the United States. This service only validates US addresses.'']
                      []
               else (let (st, corr) = determineStatus parsed final
                     in createResponse st (Some parsed) (Some final) [] corr)))"

text \<open>
  \<open>validateAddressHandler\<close> of \<open>controllers/addressController.js\<close>: the HTTP
  status and the object handed to \<open>res.json\<close>. \<open>objectKeys\<close> are the keys of a
  response object (\<open>Object.keys\<close>), in the order of their assignment;
  \<open>jsonKeys\<close> are the keys of the JSON text that \<open>res.json\<close> writes for it:
  \<open>JSON.stringify\<close> writes \<open>null\<close> and leaves out a key whose value is
  \<open>undefined\<close>.
\<close>

definition validateAddressHandler ::
  "constants \<Rightarrow> (jsval \<Rightarrow> 'n VerifiedAddress option) \<Rightarrow>
   (ParsedAddress \<Rightarrow> 'n VerifiedAddress option) \<Rightarrow> jsval \<Rightarrow> nat \<times> 'n Response" where
  "validateAddressHandler K geocodeAddress structuredSearch address' =
     (let result = validateAddress K geocodeAddress structuredSearch address';
          httpStatus = (if status result = INVALID then 422 else 200)
      in (httpStatus, result))"

definition objectKeys :: "'n Response \<Rightarrow> string list" where
  "objectKeys r =
     [''status'', ''input'', ''address''] @
     (case issues r of Missing \<Rightarrow> [] | _ \<Rightarrow> [''issues'']) @
     (case corrections r of Missing \<Rightarrow> [] | _ \<Rightarrow> [''corrections'']) @
     (case coordinates r of None \<Rightarrow> [] | Some c \<Rightarrow> [''coordinates'']) @
     (case confidence r of None \<Rightarrow> [] | Some c \<Rightarrow> [''confidence''])"

definition jsonKeys :: "'n Response \<Rightarrow> string list" where
  "jsonKeys r =
     [''status'', ''input'', ''address''] @
     (case issues r of Defined i \<Rightarrow> [''issues''] | _ \<Rightarrow> []) @
     (case corrections r of Defined c \<Rightarrow> [''corrections''] | _ \<Rightarrow> []) @
     (case coordinates r of None \<Rightarrow> [] | Some c \<Rightarrow> [''coordinates'']) @
     (case confidence r of None \<Rightarrow> [] | Some c \<Rightarrow> [''confidence''])"

section \<open>Reference tables for concrete inputs\<close>

text \<open>
  Modelled from the spec: \<open>utils/constants.js\<close> is not among the sources. The tables
  below follow the spec's reference tables and examples: the fifty states and the District
  of Columbia (the names of \<open>stateMap\<close> in \<open>geocodingService.js\<close>), the eight
  directional abbreviations, the street types \<open>St\<close> and \<open>Ave\<close>, and the unit
  designators apartment, suite, unit, floor and room. The general theorems below hold for
  every table; these tables serve the concrete inputs.
\<close>

definition referenceTables :: constants where
  "referenceTables =
     \<lparr>US_STATES =
        [(''AL'', ''Alabama''), (''AK'', ''Alaska''), (''AZ'', ''Arizona''),
         (''AR'', ''Arkansas''), (''CA'', ''California''), (''CO'', ''Colorado''),
         (''CT'', ''Connecticut''), (''DE'', ''Delaware''), (''FL'', ''Florida''),
         (''GA'', ''Georgia''), (''HI'', ''Hawaii''), (''ID'', ''Idaho''),
         (''IL'', ''Illinois''), (''IN'', ''Indiana''), (''IA'', ''Iowa''),
         (''KS'', ''Kansas''), (''KY'', ''Kentucky''), (''LA'', ''Louisiana''),
         (''ME'', ''Maine''), (''MD'', ''Maryland''), (''MA'', ''Massachusetts''),
         (''MI'', ''Michigan''), (''MN'', ''Minnesota''), (''MS'', ''Mississippi''),
         (''MO'', ''Missouri''), (''MT'', ''Montana''), (''NE'', ''Nebraska''),
         (''NV'', ''Nevada''), (''NH'', ''New Hampshire''), (''NJ'', ''New Jersey''),
         (''NM'', ''New Mexico''), (''NY'', ''New York''), (''NC'', ''North Carolina''),
         (''ND'', ''North Dakota''), (''OH'', ''Ohio''), (''OK'', ''Oklahoma''),
         (''OR'', ''Oregon''), (''PA'', ''Pennsylvania''), (''RI'', ''Rhode Island''),
         (''SC'', ''South Carolina''), (''SD'', ''South Dakota''), (''TN'', ''Tennessee''),
         (''TX'', ''Texas''), (''UT'', ''Utah''), (''VT'', ''Vermont''),
         (''VA'', ''Virginia''), (''WA'', ''Washington''), (''WV'', ''West Virginia''),
         (''WI'', ''Wisconsin''), (''WY'', ''Wyoming''), (''DC'', ''District of Columbia'')],
      STREET_TYPES = [(''st'', ''Street''), (''ave'', ''Avenue'')],
      DIRECTIONS =
        [(''n'', ''North''), (''s'', ''South''), (''e'', ''East''), (''w'', ''West''),
         (''ne'', ''Northeast''), (''nw'', ''Northwest''), (''se'', ''Southeast''),
         (''sw'', ''Southwest'')],
      UNIT_TYPES =
        [(''apt'', ''Apt''), (''apartment'', ''Apt''), (''suite'', ''Suite''),
         (''ste'', ''Suite''), (''unit'', ''Unit''), (''floor'', ''Floor''),
         (''fl'', ''Floor''), (''room'', ''Room''), (''rm'', ''Room'')]\<rparr>"

text \<open>A verified address of the geocoding service, with coordinates as integers.\<close>

definition elmStreet :: "int VerifiedAddress" where
  "elmStreet =
     \<lparr>streetNumber = Some ''12'', street = Some ''Elm Street'', city = None, state = None,
      zipCode = None, country = ''US'', latitude = 42, longitude = - 71, confidence = 50\<rparr>"

text \<open>
  Geocoding services for concrete inputs: one whose free-text lookup finds a given address,
  one whose free-text lookup finds nothing, and a structured search that finds nothing.
\<close>

definition geocodeFinds :: "int VerifiedAddress \<Rightarrow> jsval \<Rightarrow> int VerifiedAddress option" where
  "geocodeFinds v addressInput = Some v"

definition geocodeNothing :: "jsval \<Rightarrow> int VerifiedAddress option" where
  "geocodeNothing addressInput = None"

definition searchNothing :: "ParsedAddress \<Rightarrow> int VerifiedAddress option" where
  "searchNothing parsed = None"

text \<open>The same place as the geocoding service would report it outside the United States.\<close>

definition elmStreetCanada :: "int VerifiedAddress" where
  "elmStreetCanada = elmStreet\<lparr>country := ''CA''\<rparr>"

text \<open>What \<open>parseAddress\<close> returns for \<open>12 Elm St\<close> and for \<open>Apt 5\<close>.\<close>

definition elmParsed :: ParsedAddress where
  "elmParsed =
     \<lparr>streetNumber = Some ''12'', street = Some ''Elm Street'', city = None, state = None,
      zipCode = None, unit = None, raw = ''12 Elm St''\<rparr>"

definition aptParsed :: ParsedAddress where
  "aptParsed =
     \<lparr>streetNumber = None, street = None, city = None, state = None,
      zipCode = None, unit = Some ''Apt 5'', raw = ''Apt 5''\<rparr>"

text \<open>What \<open>parseAddress\<close> returns for \<open>5 Oak Ave, TX\<close> and for \<open>Boston, ZZ\<close>.\<close>

definition oakParsed :: ParsedAddress where
  "oakParsed =
     \<lparr>streetNumber = Some ''5'', street = Some ''Oak Avenue'', city = None,
      state = Some ''TX'', zipCode = None, unit = None, raw = ''5 Oak Ave, TX''\<rparr>"

definition bostonParsed :: ParsedAddress where
  "bostonParsed =
     \<lparr>streetNumber = None, street = Some ''Boston'', city = Some ''Zz'',
      state = None, zipCode = None, unit = None, raw = ''Boston, ZZ''\<rparr>"

section \<open>The comparison rules in the words of the spec\<close>









text \<open>A parse and a verified address that differ in the street number and the city.\<close>

definition mainParsed :: ParsedAddress where
  "mainParsed =
     \<lparr>streetNumber = Some ''12'', street = Some ''Main St.'', city = Some ''New Yrok'',
      state = Some ''ny'', zipCode = Some ''10001-1234'', unit = None,
      raw = ''12 Main St., New Yrok, ny 10001-1234''\<rparr>"

definition mainVerified :: "int VerifiedAddress" where
  "mainVerified =
     \<lparr>streetNumber = Some ''12A'', street = Some ''MAIN ST'', city = Some ''New York'',
      state = Some ''NY'', zipCode = Some ''10001'', country = ''US'', latitude = 40,
      longitude = - 74, confidence = 85\<rparr>"

section \<open>The words of a street name\<close>




text \<open>
  The key under which \<open>normalizeStreetName\<close> looks a word up, and the positions at
  which it consults a table: the first word, the last and the one before the last.
  \<open>ownWords x\<close> says that no word of \<open>x\<close> at such a position is a key that the
  tables inherit (in lower case these are \<open>constructor\<close> and \<open>__proto__\<close>).
\<close>

definition wordKey :: "string \<Rightarrow> string" where
  "wordKey word = rreplace trailingDot [] (toLowerCase word)"




section \<open>Evaluating the parser\<close>

lemma parse_elm: "parseAddress referenceTables (JString ''12 Elm St'') = Some elmParsed"
  unfolding elmParsed_def by code_simp

lemma parse_apt: "parseAddress referenceTables (JString ''Apt 5'') = Some aptParsed"
  unfolding aptParsed_def by code_simp

lemma parse_oak: "parseAddress referenceTables (JString ''5 Oak Ave, TX'') = Some oakParsed"
  unfolding oakParsed_def by code_simp

lemma parse_boston: "parseAddress referenceTables (JString ''Boston, ZZ'') = Some bostonParsed"
  unfolding bostonParsed_def by code_simp

section \<open>The parser: when the result is \<open>null\<close>\<close>

lemma trim_spaces:
  assumes "\<forall>c\<in>set s. isSpace c"
  shows "trim s = []"
proof -
  have d: "dropWhile isSpace s = []"
    using assms by (induction s) auto
  show ?thesis
    unfolding trim_def d by simp
qed

lemma rsearch_empty_wordB: "rsearch (seqs (WordB # rs)) [] = None"
  by (simp add: rsearch_def rsearch_from.simps seqs_def lastChar_def wordBefore_def wordAfter_def)

lemma normalizeInput_empty: "trim s = [] \<Longrightarrow> normalizeInput s = []"
  by (simp add: normalizeInput_def rreplace_all_def rreplace_all_from.simps Plus_def Chr_def)

lemma extractZip_empty: "extractZip [] = None"
  by (simp add: extractZip_def zipPattern_def rsearch_empty_wordB)

lemma abbrevMatch_empty: "abbrevMatch [] = None"
  by (simp add: abbrevMatch_def abbrevPattern_def rsearch_empty_wordB)

lemma findStateName_empty:
  "list_all (\<lambda>(a, n). n \<noteq> []) t \<Longrightarrow> findStateName t [] = None"
  by (induction t) (auto simp: toLowerCase_def)

lemma extractState_empty:
  "list_all (\<lambda>(a, n). n \<noteq> []) (US_STATES K) \<Longrightarrow> extractState K [] = None"
  by (simp add: extractState_def matchAbbreviation_def abbrevMatch_empty findStateName_empty
      toLowerCase_def)

lemma parseAddress_raw:
  "map_option raw (parseAddress K v) =
     (case v of JString s \<Rightarrow> if s = [] then None else Some s | _ \<Rightarrow> None)"
  by (simp add: parseAddress_def Let_def split: jsval.splits prod.splits)

text \<open>
  C3, as the code has it. \<open>parseAddress\<close> returns \<open>null\<close> exactly when the input is
  not a string or is the empty string: the test comes before the trimming. Every other
  input gives a parsed address whose \<open>raw\<close> is the input. A string of white space only
  gives a parsed address with every field \<open>null\<close> (when no state name of the table is
  empty).
\<close>

theorem parseAddress_null_iff:
  "(parseAddress K v = None \<longleftrightarrow> (case v of JString s \<Rightarrow> s = [] | _ \<Rightarrow> True)) \<and>
   map_option raw (parseAddress K v) =
     (case v of JString s \<Rightarrow> if s = [] then None else Some s | _ \<Rightarrow> None) \<and>
   (\<forall>s. s \<noteq> [] \<and> (\<forall>c\<in>set s. isSpace c) \<and> list_all (\<lambda>(a, n). n \<noteq> []) (US_STATES K) \<longrightarrow>
        parseAddress K (JString s) =
          Some \<lparr>streetNumber = None, street = None, city = None, state = None,
                zipCode = None, unit = None, raw = s\<rparr>)"
proof (intro conjI allI impI)
  show "parseAddress K v = None \<longleftrightarrow> (case v of JString s \<Rightarrow> s = [] | _ \<Rightarrow> True)"
    by (simp add: parseAddress_def Let_def split: jsval.splits prod.splits)
  show "map_option raw (parseAddress K v) =
     (case v of JString s \<Rightarrow> if s = [] then None else Some s | _ \<Rightarrow> None)"
    by (rule parseAddress_raw)
next
  fix s
  assume a: "s \<noteq> [] \<and> (\<forall>c\<in>set s. isSpace c) \<and> list_all (\<lambda>(a, n). n \<noteq> []) (US_STATES K)"
  then have n: "normalizeInput s = []"
    by (simp add: normalizeInput_empty trim_spaces)
  have t: "trim [] = []"
    by (simp add: trim_def)
  show "parseAddress K (JString s) =
          Some \<lparr>streetNumber = None, street = None, city = None, state = None,
                zipCode = None, unit = None, raw = s\<rparr>"
    using a
    by (simp add: parseAddress_def n extractZip_empty extractState_empty t
        parseStreetAddress_def)
qed

theorem parseAddress_null_iff_witness:
  "''   '' \<noteq> [] \<and> list_all isSpace ''   '' \<and>
   list_all (\<lambda>(a, n). n \<noteq> []) (US_STATES referenceTables) \<and>
   parseAddress referenceTables (JString ''   '') =
     Some \<lparr>streetNumber = None, street = None, city = None, state = None,
           zipCode = None, unit = None, raw = ''   ''\<rparr>"
proof -
  have s: "\<forall>c\<in>set ''   ''. isSpace c"
    by (simp add: isSpace_code)
  have k: "list_all (\<lambda>(a, n). n \<noteq> []) (US_STATES referenceTables)"
    by (simp add: referenceTables_def)
  show ?thesis
    using parseAddress_null_iff [of referenceTables "JString ''   ''"] s k
    by (simp add: list_all_iff)
qed

text \<open>
  C3 as the spec states it fails: three spaces are empty after trimming, and the parser
  does not return \<open>null\<close> for them.
\<close>

theorem parseAddress_whitespace_not_null:
  "trim ''   '' = [] \<and> parseAddress referenceTables (JString ''   '') \<noteq> None"
  by (simp add: trim_def isSpace_code parseAddress_def Let_def split: prod.splits)

section \<open>The parser: the state\<close>

lemma parseAddress_state:
  assumes "parseAddress K (JString s) = Some p"
  shows "state p = map_option stateAbbreviation (extractState K (normalizeInput s))"
  using assms
  by (auto simp: parseAddress_def Let_def split: if_splits prod.splits option.splits)

lemma findStateName_None: "findStateName t x = None \<longleftrightarrow> \<not> list_ex (\<lambda>(a, n). includesStr x (toLowerCase n)) t"
  by (induction t) (auto split: if_splits)

lemma findStateName_key:
  "findStateName t x = Some r \<Longrightarrow> stateAbbreviation r \<in> fst ` set t"
  by (induction t) (auto split: if_splits)

lemma matchAbbreviation_cases:
  "matchAbbreviation K a =
     (case firstToken a of
        None \<Rightarrow> None
      | Some g \<Rightarrow>
          if recognised K g
          then Some \<lparr>stateAbbreviation = toUpperCase g,
                     stateName = the (lookup (US_STATES K) (toUpperCase g))\<rparr>
          else None)"
  by (auto simp: matchAbbreviation_def firstToken_def recognised_def orNull_def Let_def
      split: option.splits)

lemma inherited_key:
  "inherited k = Some v \<Longrightarrow> k \<in> set (''__proto__'' # ''constructor'' # prototypeMethods)"
  unfolding inherited_def by (simp only: split: if_splits) simp_all

lemma inherited_keys_lower:
  "list_all (list_ex isLower) (''__proto__'' # ''constructor'' # prototypeMethods)"
  by code_simp

lemma inherited_lower: "inherited k = Some v \<Longrightarrow> list_ex isLower k"
  using inherited_key [of k v] inherited_keys_lower unfolding list_all_iff by blast

lemma upperChar_not_lower: "\<not> isLower (upperChar c)"
proof (cases c)
  case (Char b0 b1 b2 b3 b4 b5 b6 b7)
  show ?thesis
    unfolding Char upperChar_code
    by (cases "isLower (Char b0 b1 b2 b3 b4 b5 b6 b7)") (simp_all add: isLower_code)
qed

lemma inherited_toUpperCase: "inherited (toUpperCase g) = None"
proof (cases "inherited (toUpperCase g)")
  case None
  then show ?thesis .
next
  case (Some v)
  then have "list_ex isLower (toUpperCase g)" by (rule inherited_lower)
  then show ?thesis
    by (simp add: toUpperCase_def list_ex_iff upperChar_not_lower)
qed

lemma recognised_key: "recognised K g \<Longrightarrow> toUpperCase g \<in> fst ` set (US_STATES K)"
  by (auto simp: recognised_def lookup_def inherited_toUpperCase dest!: map_of_SomeD
      intro: rev_image_eqI split: option.splits)

text \<open>
  C5, as the code has it. The state of a parsed address is only ever a code of
  \<open>US_STATES\<close>: a two-letter token that is not a recognised code never populates it.
  When the first standalone two-letter token is a recognised code, the state is that
  token in upper case; when the full name of a state occurs, the state is not
  \<open>null\<close>; when there is no two-letter token and no full name occurs, the state is
  \<open>null\<close>; and when the state is \<open>null\<close>, no full name occurs and the first
  two-letter token, if there is one, is not a recognised code.
\<close>

theorem state_only_recognised:
  assumes "parseAddress K (JString s) = Some p"
  shows "(\<forall>c. state p = Some c \<longrightarrow> c \<in> fst ` set (US_STATES K)) \<and>
         (\<forall>g. firstToken (normalizeInput s) = Some g \<and> recognised K g \<longrightarrow>
              state p = Some (toUpperCase g)) \<and>
         (nameOccurs K (normalizeInput s) \<longrightarrow> state p \<noteq> None) \<and>
         (firstToken (normalizeInput s) = None \<and> \<not> nameOccurs K (normalizeInput s) \<longrightarrow>
              state p = None) \<and>
         (state p = None \<longrightarrow>
              \<not> nameOccurs K (normalizeInput s) \<and>
              (\<forall>g. firstToken (normalizeInput s) = Some g \<longrightarrow> \<not> recognised K g))"
proof -
  let ?a = "normalizeInput s"
  have st: "state p = map_option stateAbbreviation (extractState K ?a)"
    using assms by (rule parseAddress_state)
  have ex: "extractState K ?a =
      (case matchAbbreviation K ?a of
         Some r \<Rightarrow> Some r
       | None \<Rightarrow> findStateName (US_STATES K) (toLowerCase ?a))"
    by (simp add: extractState_def)
  have no: "findStateName (US_STATES K) (toLowerCase ?a) = None \<longleftrightarrow> \<not> nameOccurs K ?a"
    by (simp add: findStateName_None nameOccurs_def)
  show ?thesis
  proof (cases "firstToken ?a")
    case None
    then have "extractState K ?a = findStateName (US_STATES K) (toLowerCase ?a)"
      by (simp add: ex matchAbbreviation_cases)
    with None no st show ?thesis
      by (auto dest: findStateName_key)
  next
    case (Some g)
    show ?thesis
    proof (cases "recognised K g")
      case True
      then have "extractState K ?a =
          Some \<lparr>stateAbbreviation = toUpperCase g,
                stateName = the (lookup (US_STATES K) (toUpperCase g))\<rparr>"
        using Some by (simp add: ex matchAbbreviation_cases)
      with Some True st show ?thesis
        by (auto dest: recognised_key)
    next
      case False
      then have "extractState K ?a = findStateName (US_STATES K) (toLowerCase ?a)"
        using Some by (simp add: ex matchAbbreviation_cases)
      with Some False no st show ?thesis
        by (auto dest: findStateName_key)
    qed
  qed
qed

lemma oak_token:
  "firstToken (normalizeInput ''5 Oak Ave, TX'') = Some ''TX'' \<and> recognised referenceTables ''TX''"
  by code_simp

theorem state_only_recognised_witness:
  "parseAddress referenceTables (JString ''5 Oak Ave, TX'') = Some oakParsed \<and>
   firstToken (normalizeInput ''5 Oak Ave, TX'') = Some ''TX'' \<and>
   recognised referenceTables ''TX'' \<and>
   state oakParsed = Some ''TX'' \<and>
   ''TX'' \<in> fst ` set (US_STATES referenceTables)"
proof -
  have 1: "\<forall>c. state oakParsed = Some c \<longrightarrow> c \<in> fst ` set (US_STATES referenceTables)"
    using state_only_recognised [OF parse_oak] by (rule conjunct1)
  have 2: "state oakParsed = Some ''TX''"
    by (simp add: oakParsed_def)
  from 1 2 have 3: "''TX'' \<in> fst ` set (US_STATES referenceTables)"
    by blast
  show ?thesis
    using parse_oak oak_token 2 3 by blast
qed

text \<open>
  C5 as the spec states it fails: in \<open>Boston, ZZ\<close> the token \<open>ZZ\<close> is a standalone
  two-letter token that is not a recognised code, and the state is \<open>null\<close>, not
  \<open>ZZ\<close>.
\<close>

theorem state_unrecognised_token_null:
  "firstToken (normalizeInput ''Boston, ZZ'') = Some ''ZZ'' \<and>
   \<not> recognised referenceTables ''ZZ'' \<and>
   parseAddress referenceTables (JString ''Boston, ZZ'') = Some bostonParsed \<and>
   state bostonParsed = None"
proof -
  have "firstToken (normalizeInput ''Boston, ZZ'') = Some ''ZZ'' \<and>
        \<not> recognised referenceTables ''ZZ''"
    by code_simp
  then show ?thesis
    using parse_boston by (simp add: bostonParsed_def)
qed

text \<open>
  C6. The spec's own example, \<open>100 First St, Boston, MA 02101\<close>: \<open>MA\<close> is a
  recognised code, but the first two-letter token is \<open>St\<close>, the only one that
  \<open>extractState\<close> looks at, and no full state name occurs: the result is \<open>null\<close>.
  In the address of the repository's API test, \<open>1600 Pennsylvania Avenue NW,
  Washington, DC 20500\<close>, the first two-letter token is \<open>NW\<close>, and the search for
  a full name finds \<open>Pennsylvania\<close> in the street: the state is \<open>PA\<close>, not
  \<open>DC\<close>.
\<close>

theorem extractState_first_token_only:
  "firstToken (normalizeInput ''100 First St, Boston, MA 02101'') = Some ''St'' \<and>
   recognised referenceTables ''MA'' \<and>
   extractState referenceTables (normalizeInput ''100 First St, Boston, MA 02101'') = None \<and>
   firstToken (normalizeInput ''1600 Pennsylvania Avenue NW, Washington, DC 20500'')
     = Some ''NW'' \<and>
   recognised referenceTables ''DC'' \<and>
   map_option stateAbbreviation
     (extractState referenceTables
        (normalizeInput ''1600 Pennsylvania Avenue NW, Washington, DC 20500'')) = Some ''PA''"
  by code_simp

section \<open>Characters, and the regular expressions of the comparison\<close>

lemma lowerChar_lowerChar: "lowerChar (lowerChar c) = lowerChar c"
  by (cases c) (simp add: lowerChar_code isUpper_code)


lemma lowerChar_upperChar: "lowerChar (upperChar c) = lowerChar c"
  by (cases c) (auto simp: lowerChar_code upperChar_code isUpper_code isLower_code)
























section \<open>The street name: splitting, stability and idempotence\<close>















lemma toLowerCase_capitalize: "toLowerCase (capitalize w) = toLowerCase w"
  by (cases w) (simp_all add: capitalize_def toLowerCase_def lowerChar_upperChar lowerChar_lowerChar)







lemma wordKey_capitalize: "wordKey (capitalize w) = wordKey w"
  by (simp add: wordKey_def toLowerCase_capitalize)

text \<open>
  Among the strings without a capital letter, such as the lower-case form of a word, the
  keys that the tables inherit are \<open>__proto__\<close> and \<open>constructor\<close>.
\<close>

lemma methods_upper: "list_all (list_ex isUpper) prototypeMethods"
  by code_simp

lemma inherited_lowercase:
  assumes "\<not> list_ex isUpper k"
  shows "inherited k \<noteq> None \<longleftrightarrow> k = ''__proto__'' \<or> k = ''constructor''"
proof -
  from assms methods_upper have "k \<notin> set prototypeMethods"
    unfolding list_all_iff by blast
  then show ?thesis by (simp add: inherited_def)
qed

lemma lowerChar_not_upper: "\<not> isUpper (lowerChar c)"
proof (cases c)
  case (Char b0 b1 b2 b3 b4 b5 b6 b7)
  show ?thesis
    unfolding Char lowerChar_code
    by (cases "isUpper (Char b0 b1 b2 b3 b4 b5 b6 b7)") (simp_all add: isUpper_code)
qed

lemma inherited_toLowerCase:
  "inherited (toLowerCase w) \<noteq> None \<longleftrightarrow>
     toLowerCase w = ''__proto__'' \<or> toLowerCase w = ''constructor''"
  by (intro inherited_lowercase) (simp add: toLowerCase_def list_ex_iff lowerChar_not_upper)













section \<open>The validation service: status and response\<close>

lemma determineStatus_fst:
  "fst (determineStatus p v) =
     (if snd (determineStatus p v) = [] then VALID
      else if 70 \<le> VerifiedAddress.confidence v then CORRECTED else UNVERIFIABLE)"
  by (simp add: determineStatus_def Let_def)

lemma determineStatus_not_invalid: "fst (determineStatus p v) \<noteq> INVALID"
  by (simp add: determineStatus_def Let_def)

lemma createResponse_status: "status (createResponse st p g iss corr) = st"
  by (simp add: createResponse_def Let_def split: option.splits)

lemma createResponse_issues:
  "issues (createResponse st p g iss corr) = (if iss = [] then Undefined else Defined iss)"
  by (simp add: createResponse_def Let_def split: option.splits)

lemma createResponse_corrections:
  "corrections (createResponse st p g iss corr) =
     (if corr = [] then Undefined else Defined corr)"
  by (simp add: createResponse_def Let_def split: option.splits)

lemma objectKeys_lists:
  "''issues'' \<in> set (objectKeys r) \<longleftrightarrow> issues r \<noteq> Missing"
  "''corrections'' \<in> set (objectKeys r) \<longleftrightarrow> corrections r \<noteq> Missing"
  by (simp_all add: objectKeys_def split: property.splits option.splits)

lemma jsonKeys_lists:
  "''issues'' \<in> set (jsonKeys r) \<longleftrightarrow> (\<exists>i. issues r = Defined i)"
  "''corrections'' \<in> set (jsonKeys r) \<longleftrightarrow> (\<exists>c. corrections r = Defined c)"
proof -
  show "''issues'' \<in> set (jsonKeys r) \<longleftrightarrow> (\<exists>i. issues r = Defined i)"
    by (cases "issues r") (simp_all add: jsonKeys_def split: property.splits option.splits)
  show "''corrections'' \<in> set (jsonKeys r) \<longleftrightarrow> (\<exists>c. corrections r = Defined c)"
    by (cases "corrections r") (simp_all add: jsonKeys_def split: property.splits option.splits)
qed

lemma validateAddress_verified:
  assumes "parseAddress K a = Some p" and "finalResult g s p a = Some v"
  shows "validateAddress K g s a =
     (if country v \<noteq> [] \<and> country v \<noteq> ''US''
      then createResponse INVALID (Some p) (Some v)
             [''Address is not in the United States. This service only validates US addresses.'']
             []
      else createResponse (fst (determineStatus p v)) (Some p) (Some v) []
             (snd (determineStatus p v)))"
  using assms by (simp add: validateAddress_def split: prod.splits)

lemma validateAddress_unverified:
  assumes "parseAddress K a = Some p" and "finalResult g s p a = None"
  shows "validateAddress K g s a = handleUnverifiableAddress K p"
  using assms by (simp add: validateAddress_def)

lemma validateAddress_unparsed:
  assumes "parseAddress K a = None"
  shows "validateAddress K g s a =
     createResponse INVALID None None [''Could not parse address input''] []"
  using assms by (simp add: validateAddress_def)

lemma handleUnverifiable_status:
  "status (handleUnverifiableAddress K p) =
     (if truthy (street p) \<or> truthy (city p) then UNVERIFIABLE else INVALID)"
  by (simp add: handleUnverifiableAddress_def Let_def createResponse_status)

lemma finalResult_found: "finalResult (geocodeFinds v) s p a = Some v"
  by (simp add: finalResult_def geocodeFinds_def)

lemma finalResult_nothing: "finalResult geocodeNothing searchNothing p a = None"
  by (simp add: finalResult_def geocodeNothing_def searchNothing_def)

lemma elm_no_corrections: "snd (determineStatus elmParsed elmStreet) = []"
  unfolding elmParsed_def elmStreet_def by code_simp

text \<open>
  C1. When the geocoding service gave a verified address in the United States,
  \<open>validateAddress\<close> answers with the status of \<open>determineStatus\<close>, which is
  \<open>valid\<close> when the comparison of the fields gives no correction, \<open>corrected\<close> when
  it gives at least one and the confidence is at least 70, and \<open>unverifiable\<close> when it
  gives at least one and the confidence is below 70.
\<close>

theorem determineStatus_classifies:
  "fst (determineStatus p v) =
     (if snd (determineStatus p v) = [] then VALID
      else if 70 \<le> VerifiedAddress.confidence v then CORRECTED else UNVERIFIABLE) \<and>
   (parseAddress K a = Some p \<and> finalResult g s p a = Some v \<and> country v = ''US'' \<longrightarrow>
      status (validateAddress K g s a) = fst (determineStatus p v))"
proof (intro conjI impI)
  show "fst (determineStatus p v) =
     (if snd (determineStatus p v) = [] then VALID
      else if 70 \<le> VerifiedAddress.confidence v then CORRECTED else UNVERIFIABLE)"
    by (rule determineStatus_fst)
next
  assume a: "parseAddress K a = Some p \<and> finalResult g s p a = Some v \<and> country v = ''US''"
  then have "validateAddress K g s a =
          createResponse (fst (determineStatus p v)) (Some p) (Some v) []
            (snd (determineStatus p v))"
    by (simp add: validateAddress_verified)
  then show "status (validateAddress K g s a) = fst (determineStatus p v)"
    by (simp add: createResponse_status)
qed

theorem determineStatus_classifies_witness:
  "parseAddress referenceTables (JString ''12 Elm St'') = Some elmParsed \<and>
   finalResult (geocodeFinds elmStreet) searchNothing elmParsed (JString ''12 Elm St'')
     = Some elmStreet \<and>
   country elmStreet = ''US'' \<and>
   snd (determineStatus elmParsed elmStreet) = [] \<and>
   status (validateAddress referenceTables (geocodeFinds elmStreet) searchNothing
             (JString ''12 Elm St'')) = VALID \<and>
   fst (determineStatus mainParsed mainVerified) = CORRECTED \<and>
   fst (determineStatus aptParsed elmStreet) = UNVERIFIABLE"
proof -
  have c: "country elmStreet = ''US''"
    by (simp add: elmStreet_def)
  have m: "fst (determineStatus mainParsed mainVerified) = CORRECTED"
    unfolding mainParsed_def mainVerified_def by code_simp
  have u: "fst (determineStatus aptParsed elmStreet) = UNVERIFIABLE"
    unfolding aptParsed_def elmStreet_def by code_simp
  have "status (validateAddress referenceTables (geocodeFinds elmStreet) searchNothing
             (JString ''12 Elm St'')) = VALID"
    using determineStatus_classifies
            [of elmParsed elmStreet referenceTables "JString ''12 Elm St''"
               "geocodeFinds elmStreet" searchNothing]
      parse_elm finalResult_found [of elmStreet searchNothing elmParsed "JString ''12 Elm St''"]
      c elm_no_corrections
    by simp
  with parse_elm finalResult_found c elm_no_corrections m u show ?thesis
    by blast
qed

text \<open>
  C2, as the code has it. \<open>validateAddress\<close> answers \<open>invalid\<close> exactly when the
  input does not parse, or the verified address it ends with has a country (a non-empty
  string) other than \<open>US\<close>, or it ends with no verified address and the parse has
  neither a street nor a city. In the case of another country the response carries the
  one message about the United States.
\<close>

theorem validateAddress_invalid_iff:
  "(status (validateAddress K g s a) = INVALID \<longleftrightarrow>
     (case parseAddress K a of
        None \<Rightarrow> True
      | Some p \<Rightarrow>
          (case finalResult g s p a of
             Some v \<Rightarrow> country v \<noteq> [] \<and> country v \<noteq> ''US''
           | None \<Rightarrow> \<not> truthy (street p) \<and> \<not> truthy (city p)))) \<and>
   (\<forall>p v. parseAddress K a = Some p \<and> finalResult g s p a = Some v \<and>
          country v \<noteq> [] \<and> country v \<noteq> ''US'' \<longrightarrow>
      issues (validateAddress K g s a) =
        Defined [''Address is not in the United States. This service only validates US addresses.''])"
  by (auto simp: validateAddress_verified validateAddress_unverified validateAddress_unparsed
      determineStatus_not_invalid handleUnverifiable_status createResponse_status
      createResponse_issues split: option.splits)

theorem validateAddress_invalid_iff_witness:
  "status (validateAddress referenceTables (geocodeFinds elmStreetCanada) searchNothing
             (JString ''12 Elm St'')) = INVALID \<and>
   issues (validateAddress referenceTables (geocodeFinds elmStreetCanada) searchNothing
             (JString ''12 Elm St'')) =
     Defined [''Address is not in the United States. This service only validates US addresses.'']"
  using validateAddress_invalid_iff
          [of referenceTables "geocodeFinds elmStreetCanada" searchNothing "JString ''12 Elm St''"]
    parse_elm
  by (simp add: finalResult_found elmStreetCanada_def elmStreet_def)

lemma apt_corrections: "snd (determineStatus aptParsed elmStreet) \<noteq> []"
  unfolding aptParsed_def elmStreet_def by code_simp

text \<open>
  C2 as the spec states it fails: \<open>Apt 5\<close> parses with neither a street nor a city, and
  when the free-text lookup of the geocoding service finds an address in the United States
  the answer is not \<open>invalid\<close>.
\<close>

theorem validateAddress_unparsed_street_city_not_invalid:
  "parseAddress referenceTables (JString ''Apt 5'') = Some aptParsed \<and>
   street aptParsed = None \<and> city aptParsed = None \<and>
   status (validateAddress referenceTables (geocodeFinds elmStreet) searchNothing
             (JString ''Apt 5'')) = UNVERIFIABLE"
proof -
  have "validateAddress referenceTables (geocodeFinds elmStreet) searchNothing (JString ''Apt 5'') =
          createResponse (fst (determineStatus aptParsed elmStreet)) (Some aptParsed)
            (Some elmStreet) [] (snd (determineStatus aptParsed elmStreet))"
    using validateAddress_verified [OF parse_apt finalResult_found, of elmStreet searchNothing]
    by (simp add: elmStreet_def)
  moreover have "fst (determineStatus aptParsed elmStreet) = UNVERIFIABLE"
    using apt_corrections by (simp add: determineStatus_fst) (simp add: elmStreet_def)
  ultimately show ?thesis
    using parse_apt by (simp add: createResponse_status aptParsed_def)
qed

lemma createResponse_verified:
  "createResponse st parsed (Some v) iss corr =
     \<lparr>status = st,
      input = (case parsed of None \<Rightarrow> None | Some p \<Rightarrow> orNull (Some (raw p))),
      address = Some
        \<lparr>streetNumber = streetNumber v, street = street v, city = city v,
         state = state v, zipCode = zipCode v,
         unit = orNull (case parsed of None \<Rightarrow> None | Some p \<Rightarrow> unit p),
         formatted = formatAddress v (case parsed of None \<Rightarrow> None | Some p \<Rightarrow> unit p)\<rparr>,
      issues = (if iss = [] then Undefined else Defined iss),
      corrections = (if corr = [] then Undefined else Defined corr),
      coordinates = Some \<lparr>latitude = VerifiedAddress.latitude v,
                          longitude = VerifiedAddress.longitude v\<rparr>,
      confidence = Some (VerifiedAddress.confidence v)\<rparr>"
  by (simp add: createResponse_def Let_def)

text \<open>
  C8. When a verified address is present, the address of the response has the street
  number, street, city, state and ZIP code of the verified address, its unit is
  \<open>parsed.unit\<close> (\<open>null\<close> when that is empty or there is no parse), and the
  coordinates and the confidence are those of the verified address: in every response of
  \<open>validateAddress\<close> that ends with a verified address, and in \<open>createResponse\<close>
  itself.
\<close>

theorem createResponse_address_from_verified:
  "address (createResponse st parsed (Some v) iss corr) =
     Some \<lparr>streetNumber = streetNumber v, street = street v, city = city v,
           state = state v, zipCode = zipCode v,
           unit = orNull (case parsed of None \<Rightarrow> None | Some q \<Rightarrow> unit q),
           formatted = formatAddress v (case parsed of None \<Rightarrow> None | Some q \<Rightarrow> unit q)\<rparr> \<and>
   coordinates (createResponse st parsed (Some v) iss corr) =
     Some \<lparr>latitude = VerifiedAddress.latitude v, longitude = VerifiedAddress.longitude v\<rparr> \<and>
   confidence (createResponse st parsed (Some v) iss corr) =
     Some (VerifiedAddress.confidence v) \<and>
   (parseAddress K a = Some p \<and> finalResult g s p a = Some v \<longrightarrow>
      address (validateAddress K g s a) =
        Some \<lparr>streetNumber = streetNumber v, street = street v, city = city v,
              state = state v, zipCode = zipCode v, unit = orNull (unit p),
              formatted = formatAddress v (unit p)\<rparr> \<and>
      coordinates (validateAddress K g s a) =
        Some \<lparr>latitude = VerifiedAddress.latitude v,
              longitude = VerifiedAddress.longitude v\<rparr> \<and>
      confidence (validateAddress K g s a) = Some (VerifiedAddress.confidence v))"
  by (simp add: createResponse_verified validateAddress_verified)

theorem createResponse_address_from_verified_witness:
  "parseAddress referenceTables (JString ''Apt 5'') = Some aptParsed \<and>
   finalResult (geocodeFinds elmStreet) searchNothing aptParsed (JString ''Apt 5'')
     = Some elmStreet \<and>
   address (validateAddress referenceTables (geocodeFinds elmStreet) searchNothing
              (JString ''Apt 5'')) =
     Some \<lparr>streetNumber = Some ''12'', street = Some ''Elm Street'', city = None,
           state = None, zipCode = None, unit = Some ''Apt 5'',
           formatted = Some ''12 Elm Street Apt 5''\<rparr> \<and>
   coordinates (validateAddress referenceTables (geocodeFinds elmStreet) searchNothing
                  (JString ''Apt 5'')) =
     Some \<lparr>latitude = 42, longitude = - 71\<rparr> \<and>
   confidence (validateAddress referenceTables (geocodeFinds elmStreet) searchNothing
                 (JString ''Apt 5'')) = Some 50"
proof -
  have f: "formatAddress elmStreet (Some ''Apt 5'') = Some ''12 Elm Street Apt 5''"
    unfolding elmStreet_def by code_simp
  show ?thesis
    using createResponse_address_from_verified
            [of VALID None elmStreet "[]" "[]" referenceTables "JString ''Apt 5''" aptParsed
               "geocodeFinds elmStreet" searchNothing]
      parse_apt finalResult_found [of elmStreet searchNothing aptParsed "JString ''Apt 5''"] f
    by (simp add: orNull_def) (simp add: elmStreet_def aptParsed_def)
qed

lemma createResponse_unverified:
  "createResponse UNVERIFIABLE (Some p) None iss corr =
     \<lparr>status = UNVERIFIABLE,
      input = orNull (Some (raw p)),
      address = Some
        \<lparr>streetNumber = streetNumber p, street = street p, city = city p,
         state = state p, zipCode = zipCode p, unit = unit p, formatted = None\<rparr>,
      issues = (if iss = [] then Undefined else Defined iss),
      corrections = (if corr = [] then Undefined else Defined corr),
      coordinates = None,
      confidence = None\<rparr>"
  by (simp add: createResponse_def Let_def)

text \<open>
  C9. When no verified address is present and the status is \<open>unverifiable\<close>, the
  address of the response has the fields of the parse, \<open>formatted\<close> is \<open>null\<close>,
  and the response has neither coordinates nor a confidence: in every such response of
  \<open>validateAddress\<close>, and in \<open>createResponse\<close> itself.
\<close>

theorem createResponse_address_from_parsed:
  fixes g :: "jsval \<Rightarrow> 'n VerifiedAddress option"
  shows
  "address (createResponse UNVERIFIABLE (Some p) None iss corr :: 'n Response) =
     Some \<lparr>streetNumber = streetNumber p, street = street p, city = city p,
           state = state p, zipCode = zipCode p, unit = unit p, formatted = None\<rparr> \<and>
   coordinates (createResponse UNVERIFIABLE (Some p) None iss corr :: 'n Response) = None \<and>
   confidence (createResponse UNVERIFIABLE (Some p) None iss corr :: 'n Response) = None \<and>
   (parseAddress K a = Some p \<and> finalResult g s p a = None \<and>
    status (validateAddress K g s a) = UNVERIFIABLE \<longrightarrow>
      address (validateAddress K g s a) =
        Some \<lparr>streetNumber = streetNumber p, street = street p, city = city p,
              state = state p, zipCode = zipCode p, unit = unit p, formatted = None\<rparr> \<and>
      coordinates (validateAddress K g s a) = None \<and>
      confidence (validateAddress K g s a) = None)"
  by (auto simp: createResponse_unverified validateAddress_unverified
      handleUnverifiableAddress_def Let_def createResponse_status split: if_splits)

theorem createResponse_address_from_parsed_witness:
  "parseAddress referenceTables (JString ''12 Elm St'') = Some elmParsed \<and>
   finalResult geocodeNothing searchNothing elmParsed (JString ''12 Elm St'') = None \<and>
   status (validateAddress referenceTables geocodeNothing searchNothing
             (JString ''12 Elm St'')) = UNVERIFIABLE \<and>
   address (validateAddress referenceTables geocodeNothing searchNothing
              (JString ''12 Elm St'')) =
     Some \<lparr>streetNumber = Some ''12'', street = Some ''Elm Street'', city = None,
           state = None, zipCode = None, unit = None, formatted = None\<rparr> \<and>
   coordinates (validateAddress referenceTables geocodeNothing searchNothing
                  (JString ''12 Elm St'')) = None \<and>
   confidence (validateAddress referenceTables geocodeNothing searchNothing
                 (JString ''12 Elm St'')) = None"
proof -
  have st: "status (validateAddress referenceTables geocodeNothing searchNothing
                      (JString ''12 Elm St'')) = UNVERIFIABLE"
    by (simp add: validateAddress_unverified [OF parse_elm finalResult_nothing]
        handleUnverifiable_status)
      (simp add: elmParsed_def)
  show ?thesis
    using createResponse_address_from_parsed
            [of elmParsed "[]" "[]" referenceTables "JString ''12 Elm St''"
               geocodeNothing searchNothing]
      parse_elm finalResult_nothing [of elmParsed "JString ''12 Elm St''"] st
    by simp (simp add: elmParsed_def)
qed

text \<open>
  C10, as the code has it. In a response of \<open>validateAddress\<close> the keys
  \<open>issues\<close> and \<open>corrections\<close> are always assigned, as the object literal of
  \<open>createResponse\<close> has them: the value is the list when the list is not empty and
  \<open>undefined\<close> otherwise, never an empty list. In the JSON text that the handler
  writes, each of the two keys is present exactly when its value is not \<open>undefined\<close>,
  that is, only with a non-empty list. A response with status \<open>valid\<close> has both values
  \<open>undefined\<close> and neither key in the JSON text.
\<close>

theorem response_lists_never_empty:
  fixes g :: "jsval \<Rightarrow> 'n VerifiedAddress option"
    and geocoded :: "'n VerifiedAddress option"
  shows
  "issues (validateAddress K g s a) \<noteq> Missing \<and>
   corrections (validateAddress K g s a) \<noteq> Missing \<and>
   issues (validateAddress K g s a) \<noteq> Defined [] \<and>
   corrections (validateAddress K g s a) \<noteq> Defined [] \<and>
   ''issues'' \<in> set (objectKeys (validateAddress K g s a)) \<and>
   ''corrections'' \<in> set (objectKeys (validateAddress K g s a)) \<and>
   (''issues'' \<in> set (jsonKeys (snd (validateAddressHandler K g s a))) \<longleftrightarrow>
      issues (validateAddress K g s a) \<noteq> Undefined) \<and>
   (''corrections'' \<in> set (jsonKeys (snd (validateAddressHandler K g s a))) \<longleftrightarrow>
      corrections (validateAddress K g s a) \<noteq> Undefined) \<and>
   (status (validateAddress K g s a) = VALID \<longrightarrow>
      issues (validateAddress K g s a) = Undefined \<and>
      corrections (validateAddress K g s a) = Undefined \<and>
      ''issues'' \<notin> set (jsonKeys (snd (validateAddressHandler K g s a))) \<and>
      ''corrections'' \<notin> set (jsonKeys (snd (validateAddressHandler K g s a)))) \<and>
   issues (createResponse st parsed geocoded iss corr) =
     (if iss = [] then Undefined else Defined iss) \<and>
   corrections (createResponse st parsed geocoded iss corr) =
     (if corr = [] then Undefined else Defined corr)"
proof -
  have h: "snd (validateAddressHandler K g s a) = validateAddress K g s a"
    by (simp add: validateAddressHandler_def Let_def)
  show ?thesis
  proof (cases "parseAddress K a")
    case None
    then show ?thesis
      unfolding h objectKeys_lists jsonKeys_lists
      by (simp add: validateAddress_unparsed createResponse_status createResponse_issues
          createResponse_corrections)
  next
    case (Some p)
    show ?thesis
    proof (cases "finalResult g s p a")
      case None
      then show ?thesis
        using Some
        unfolding h objectKeys_lists jsonKeys_lists
        by (simp add: validateAddress_unverified handleUnverifiableAddress_def Let_def
            createResponse_status createResponse_issues createResponse_corrections)
    next
      case (Some v)
      then show ?thesis
        using \<open>parseAddress K a = Some p\<close>
        unfolding h objectKeys_lists jsonKeys_lists
        by (simp add: validateAddress_verified createResponse_status createResponse_issues
            createResponse_corrections determineStatus_fst)
    qed
  qed
qed

theorem response_lists_never_empty_witness:
  "status (validateAddress referenceTables (geocodeFinds elmStreet) searchNothing
             (JString ''12 Elm St'')) = VALID \<and>
   issues (validateAddress referenceTables (geocodeFinds elmStreet) searchNothing
             (JString ''12 Elm St'')) = Undefined \<and>
   corrections (validateAddress referenceTables (geocodeFinds elmStreet) searchNothing
             (JString ''12 Elm St'')) = Undefined \<and>
   ''issues'' \<notin> set (jsonKeys (snd (validateAddressHandler referenceTables
             (geocodeFinds elmStreet) searchNothing (JString ''12 Elm St'')))) \<and>
   ''corrections'' \<notin> set (jsonKeys (snd (validateAddressHandler referenceTables
             (geocodeFinds elmStreet) searchNothing (JString ''12 Elm St''))))"
proof -
  have "status (validateAddress referenceTables (geocodeFinds elmStreet) searchNothing
             (JString ''12 Elm St'')) = VALID"
    using elm_no_corrections
    by (simp add: validateAddress_verified [OF parse_elm finalResult_found]
        createResponse_status determineStatus_fst)
      (simp add: elmStreet_def)
  then show ?thesis
    using response_lists_never_empty
            [of referenceTables "geocodeFinds elmStreet" searchNothing "JString ''12 Elm St''"
               VALID None None "[]" "[]"]
    by simp
qed

text \<open>
  C10 as the spec states it fails on the object that \<open>validateAddress\<close> returns: the
  response to \<open>12 Elm St\<close>, confirmed by the geocoding service, has status
  \<open>valid\<close> and has the keys \<open>issues\<close> and \<open>corrections\<close>, each with the value
  \<open>undefined\<close>.
\<close>

theorem valid_response_has_list_keys:
  "status (validateAddress referenceTables (geocodeFinds elmStreet) searchNothing
             (JString ''12 Elm St'')) = VALID \<and>
   objectKeys (validateAddress referenceTables (geocodeFinds elmStreet) searchNothing
             (JString ''12 Elm St'')) =
     [''status'', ''input'', ''address'', ''issues'', ''corrections'', ''coordinates'',
      ''confidence''] \<and>
   issues (validateAddress referenceTables (geocodeFinds elmStreet) searchNothing
             (JString ''12 Elm St'')) = Undefined \<and>
   corrections (validateAddress referenceTables (geocodeFinds elmStreet) searchNothing
             (JString ''12 Elm St'')) = Undefined"
proof -
  have "validateAddress referenceTables (geocodeFinds elmStreet) searchNothing
          (JString ''12 Elm St'') =
        createResponse VALID (Some elmParsed) (Some elmStreet) [] []"
    using elm_no_corrections
    by (simp add: validateAddress_verified [OF parse_elm finalResult_found]
        determineStatus_fst)
      (simp add: elmStreet_def)
  then show ?thesis
    by (simp add: createResponse_verified objectKeys_def)
qed

end
